theory Spec2Isabelle
  imports Main
begin

section \<open>Data model\<close>

text \<open>
  The \<open>users\<close> table of \<^verbatim>\<open>user.entity.ts\<close>. The enum column \<open>role\<close> admits exactly four
  values (the same four that \<^verbatim>\<open>@IsEnum\<close> admits in the creation input), so it is a datatype.
  Dates are points on a clock, taken as natural numbers.
\<close>

datatype role = customer | driver | manager | admin

type_synonym date = nat

subsection \<open>The primary key\<close>

text \<open>
  \<^verbatim>\<open>@PrimaryGeneratedColumn('uuid')\<close> on a PostgreSQL connection: the column \<open>id\<close> has the
  store's type \<open>uuid\<close>. The service hands ids to the store as text, and the store reads a
  text as a uuid by its input rule: an optional opening brace, then eight groups of four
  hexadecimal digits, in either case, with an optional hyphen after every group but the
  last, then the closing brace if there was an opening one, and nothing more. Any other
  text is an error of the query. \<open>read_groups n\<close> reads the last \<open>n\<close> groups and returns
  their digits in lower case with the rest of the text.
\<close>

definition isxdigit :: "char \<Rightarrow> bool" where
  "isxdigit c = (c \<in> set ''0123456789abcdefABCDEF'')"

definition lower_digit :: "char \<Rightarrow> char" where
  "lower_digit c =
     (if c = CHR ''A'' then CHR ''a'' else if c = CHR ''B'' then CHR ''b''
      else if c = CHR ''C'' then CHR ''c'' else if c = CHR ''D'' then CHR ''d''
      else if c = CHR ''E'' then CHR ''e'' else if c = CHR ''F'' then CHR ''f'' else c)"

definition skip_hyphen :: "string \<Rightarrow> string" where
  "skip_hyphen s = (case s of [] \<Rightarrow> [] | c # rest \<Rightarrow> if c = CHR ''-'' then rest else s)"

fun read_groups :: "nat \<Rightarrow> string \<Rightarrow> (string \<times> string) option" where
  "read_groups 0 s = Some ([], s)"
| "read_groups (Suc n) (a # b # c # d # rest) =
     (if isxdigit a \<and> isxdigit b \<and> isxdigit c \<and> isxdigit d
      then (case read_groups n (if 0 < n then skip_hyphen rest else rest) of
              None \<Rightarrow> None
            | Some (ds, r) \<Rightarrow>
                Some (lower_digit a # lower_digit b # lower_digit c # lower_digit d # ds, r))
      else None)"
| "read_groups (Suc n) s = None"

definition uuid_digits :: "string \<Rightarrow> string option" where
  "uuid_digits s =
     (case s of
        [] \<Rightarrow> None
      | c # rest \<Rightarrow>
          if c = CHR ''{''
          then (case read_groups 8 rest of
                  None \<Rightarrow> None
                | Some (ds, r) \<Rightarrow> if r = ''}'' then Some ds else None)
          else (case read_groups 8 s of
                  None \<Rightarrow> None
                | Some (ds, r) \<Rightarrow> if r = [] then Some ds else None))"

text \<open>
  The store writes a uuid in one form only: the thirty-two digits in lower case, grouped
  8-4-4-4-12. \<open>uuid_text\<close> takes a text to the output form of the uuid it denotes.
\<close>

definition hyphenate :: "string \<Rightarrow> string" where
  "hyphenate ds =
     take 8 ds @ ''-'' @ take 4 (drop 8 ds) @ ''-'' @ take 4 (drop 12 ds) @ ''-''
     @ take 4 (drop 16 ds) @ ''-'' @ drop 20 ds"

definition uuid_text :: "string \<Rightarrow> string option" where
  "uuid_text s = map_option hyphenate (uuid_digits s)"

text \<open>
  A uuid is given by its output form. \<open>uuid_out\<close> is the text the store returns for it,
  and \<open>uuid_in\<close> the store's reading of a text.
\<close>

typedef uuid = "{s. uuid_text s = Some s}"
  morphisms uuid_out Abs_uuid
  by (rule exI[of _ "''00000000-0000-0000-0000-000000000000''"])
    (simp add: uuid_text_def uuid_digits_def hyphenate_def isxdigit_def lower_digit_def
      skip_hyphen_def eval_nat_numeral)

definition uuid_in :: "string \<Rightarrow> uuid option" where
  "uuid_in s = map_option Abs_uuid (uuid_text s)"

text \<open>The digits of the output form.\<close>

definition lowhex :: "char \<Rightarrow> bool" where
  "lowhex c = (c \<in> set ''0123456789abcdef'')"

subsection \<open>Rows, instances and inputs\<close>

text \<open>
  A row of the table: every column holds a value; only \<open>phoneNumber\<close> is nullable.
\<close>

record row =
  r_id :: uuid
  r_fullName :: string
  r_email :: string
  r_password :: string
  r_phoneNumber :: "string option"
  r_role :: role
  r_isActive :: bool
  r_createdAt :: date
  r_updatedAt :: date

text \<open>
  A property of a JavaScript object is absent (\<^verbatim>\<open>undefined\<close>), \<^verbatim>\<open>null\<close>, or holds a value.
\<close>

datatype 'a js = Undefined | Null | Val 'a

text \<open>A template literal writes a property out like this.\<close>

definition template :: "string js \<Rightarrow> string" where
  "template x = (case x of Undefined \<Rightarrow> ''undefined'' | Null \<Rightarrow> ''null'' | Val s \<Rightarrow> s)"

text \<open>
  An instance of the class \<^verbatim>\<open>User\<close>. Before the first save it carries neither \<open>id\<close> nor the
  defaults nor the dates; an instance read with the default selection does not carry
  \<open>password\<close> (\<^verbatim>\<open>select: false\<close>) and holds \<^verbatim>\<open>null\<close> in \<open>phoneNumber\<close> when the column is NULL.
\<close>

record User =
  u_id :: "string js"
  u_fullName :: "string js"
  u_email :: "string js"
  u_password :: "string js"
  u_phoneNumber :: "string js"
  u_role :: "role js"
  u_isActive :: "bool js"
  u_createdAt :: "date js"
  u_updatedAt :: "date js"

text \<open>\<^verbatim>\<open>CreateUserDto\<close>, as declared: three required strings and two optional properties.\<close>

record CreateUserDto =
  c_fullName :: string
  c_email :: string
  c_password :: string
  c_phoneNumber :: "string option"
  c_role :: "role option"

text \<open>
  \<^verbatim>\<open>UpdateUserDto extends PartialType(CreateUserDto)\<close> with \<^verbatim>\<open>isActive?: boolean\<close>. Every
  property is optional, and the validation of an optional property (\<^verbatim>\<open>@IsOptional()\<close>) lets
  both an absent property and \<^verbatim>\<open>null\<close> through without looking further, so a property of
  the input the service receives is absent, \<^verbatim>\<open>null\<close>, or a value.
\<close>

record UpdateUserDto =
  p_fullName :: "string js"
  p_email :: "string js"
  p_password :: "string js"
  p_phoneNumber :: "string js"
  p_role :: "role js"
  p_isActive :: "bool js"

text \<open>
  On a value that is there, the email of an input must pass \<^verbatim>\<open>@IsEmail\<close> and \<^verbatim>\<open>@IsNotEmpty\<close>
  before the global validation pipe lets the request reach the service. \<^verbatim>\<open>@IsNotEmpty\<close>
  rejects the empty string; \<^verbatim>\<open>@IsEmail\<close> rejects more, and is left out: what holds for
  every email that passes \<open>email_validated\<close> holds for every email of a request.
\<close>

definition email_validated :: "string js \<Rightarrow> bool" where
  "email_validated x = (case x of Undefined \<Rightarrow> True | Null \<Rightarrow> True | Val v \<Rightarrow> v \<noteq> [])"

text \<open>
  What a call takes from outside the program: the uuid the store generates for a new row,
  the time of the write, the salt \<^verbatim>\<open>bcrypt.genSalt(10)\<close> draws and the function
  \<^verbatim>\<open>bcrypt.hash\<close> (plaintext and salt to digest).
\<close>

record env =
  gen_uuid :: uuid
  clock :: date
  genSalt :: string
  hash :: "string \<Rightarrow> string \<Rightarrow> string"

datatype violation = UniqueViolation | NotNullViolation | InvalidTextRepresentation

datatype error =
    ConflictException string
  | NotFoundException string
  | QueryFailedError violation

type_synonym db = "row list"

section \<open>The repository\<close>

text \<open>
  \<^verbatim>\<open>Repository<User>\<close> as the service uses it. A query with the default selection reads
  every column except \<open>password\<close>, which the entity declares \<^verbatim>\<open>select: false\<close>.
\<close>

definition nullable :: "'a option \<Rightarrow> 'a js" where
  "nullable x = (case x of None \<Rightarrow> Null | Some v \<Rightarrow> Val v)"

definition hydrate :: "row \<Rightarrow> User" where
  "hydrate r =
     \<lparr>u_id = Val (uuid_out (r_id r)), u_fullName = Val (r_fullName r), u_email = Val (r_email r),
      u_password = Undefined, u_phoneNumber = nullable (r_phoneNumber r),
      u_role = Val (r_role r), u_isActive = Val (r_isActive r),
      u_createdAt = Val (r_createdAt r), u_updatedAt = Val (r_updatedAt r)\<rparr>"

text \<open>
  The selection of \<^verbatim>\<open>findByEmail\<close>:
  \<^verbatim>\<open>['id', 'email', 'password', 'role', 'fullName', 'isActive']\<close>.
\<close>

definition hydrate_with_password :: "row \<Rightarrow> User" where
  "hydrate_with_password r =
     \<lparr>u_id = Val (uuid_out (r_id r)), u_fullName = Val (r_fullName r), u_email = Val (r_email r),
      u_password = Val (r_password r), u_phoneNumber = Undefined, u_role = Val (r_role r),
      u_isActive = Val (r_isActive r), u_createdAt = Undefined, u_updatedAt = Undefined\<rparr>"

definition row_by_key :: "uuid \<Rightarrow> db \<Rightarrow> row option" where
  "row_by_key k rows = find (\<lambda>r. r_id r = k) rows"

definition row_by_email :: "string \<Rightarrow> db \<Rightarrow> row option" where
  "row_by_email e rows = find (\<lambda>r. r_email r = e) rows"

text \<open>
  \<^verbatim>\<open>userRepository.findOne({ where: { id } })\<close>: the store reads the text as a uuid, and the
  query fails when it is not one.
\<close>

definition repo_findOne_id :: "string \<Rightarrow> db \<Rightarrow> error + User option" where
  "repo_findOne_id i rows =
     (case uuid_in i of
        None \<Rightarrow> Inl (QueryFailedError InvalidTextRepresentation)
      | Some k \<Rightarrow> Inr (map_option hydrate (row_by_key k rows)))"

text \<open>\<^verbatim>\<open>userRepository.findOne({ where: { email } })\<close>\<close>

definition repo_findOne_email :: "string \<Rightarrow> db \<Rightarrow> User option" where
  "repo_findOne_email e rows = map_option hydrate (row_by_email e rows)"

text \<open>\<^verbatim>\<open>userRepository.find()\<close>\<close>

definition repo_find :: "db \<Rightarrow> User list" where
  "repo_find rows = map hydrate rows"

text \<open>
  \<^verbatim>\<open>userRepository.create(createUserDto)\<close>: a new instance with the input's properties and
  nothing else; nothing is written.
\<close>

definition optional :: "'a option \<Rightarrow> 'a js" where
  "optional x = (case x of None \<Rightarrow> Undefined | Some v \<Rightarrow> Val v)"

definition repo_create :: "CreateUserDto \<Rightarrow> User" where
  "repo_create dto =
     \<lparr>u_id = Undefined, u_fullName = Val (c_fullName dto), u_email = Val (c_email dto),
      u_password = Val (c_password dto), u_phoneNumber = optional (c_phoneNumber dto),
      u_role = optional (c_role dto), u_isActive = Undefined, u_createdAt = Undefined,
      u_updatedAt = Undefined\<rparr>"

text \<open>
  The entity's only lifecycle hook, \<^verbatim>\<open>@BeforeInsert() hashPasswordBeforeInsert\<close>:
  \<^verbatim>\<open>if (this.password) { salt = genSalt(10); this.password = hash(this.password, salt) }\<close>.
  An absent property, \<^verbatim>\<open>null\<close> and the empty string are falsy.
\<close>

definition hashPasswordBeforeInsert :: "env \<Rightarrow> User \<Rightarrow> User" where
  "hashPasswordBeforeInsert e u =
     (case u_password u of
        Undefined \<Rightarrow> u
      | Null \<Rightarrow> u
      | Val p \<Rightarrow> if p = [] then u else u\<lparr>u_password := Val (hash e p (genSalt e))\<rparr>)"

text \<open>
  Saving an instance that has no row yet, under the key \<open>k\<close>: the insert hook runs, the
  store fills the column defaults (\<open>role = customer\<close>, \<open>isActive = true\<close>) where the
  property is absent and both dates, and rejects the row when a column other than
  \<open>phoneNumber\<close> would be NULL, or when the key or the unique column \<open>email\<close> is already
  taken. \<open>save\<close> returns the very instance it was given, completed with the generated
  values: its \<open>password\<close> property stays on it.
\<close>

definition insert_row :: "env \<Rightarrow> uuid \<Rightarrow> User \<Rightarrow> db \<Rightarrow> (error + User) \<times> db" where
  "insert_row e k u0 rows =
     (let u = hashPasswordBeforeInsert e u0 in
      case (u_fullName u, u_email u, u_password u) of
        (Val name, Val mail, Val pw) \<Rightarrow>
          if u_role u = Null \<or> u_isActive u = Null
          then (Inl (QueryFailedError NotNullViolation), rows)
          else
            let r = \<lparr>r_id = k, r_fullName = name, r_email = mail, r_password = pw,
                     r_phoneNumber = (case u_phoneNumber u of Val p \<Rightarrow> Some p | _ \<Rightarrow> None),
                     r_role = (case u_role u of Val x \<Rightarrow> x | _ \<Rightarrow> customer),
                     r_isActive = (case u_isActive u of Val b \<Rightarrow> b | _ \<Rightarrow> True),
                     r_createdAt = clock e, r_updatedAt = clock e\<rparr>
            in if k \<in> set (map r_id rows) \<or> mail \<in> set (map r_email rows)
               then (Inl (QueryFailedError UniqueViolation), rows)
               else (Inr (u\<lparr>u_id := Val (uuid_out k), u_role := Val (r_role r),
                            u_isActive := Val (r_isActive r),
                            u_createdAt := Val (r_createdAt r),
                            u_updatedAt := Val (r_updatedAt r)\<rparr>),
                     rows @ [r])
      | _ \<Rightarrow> (Inl (QueryFailedError NotNullViolation), rows))"

text \<open>
  Saving an instance whose row exists: no hook runs (the entity declares none for updates).
  The columns written are those whose property is there and differs from the row as read
  with the default selection, so a \<open>password\<close> that is there is always written, as it
  stands. A \<^verbatim>\<open>null\<close> is written as NULL, which every column but \<open>phoneNumber\<close> rejects.
  With nothing to write, no statement is issued; otherwise \<open>updatedAt\<close> is refreshed, and
  the unique index rejects an \<open>email\<close> that another row holds.
\<close>

definition nulls_rejected :: "User \<Rightarrow> bool" where
  "nulls_rejected u =
     (u_fullName u = Null \<or> u_email u = Null \<or> u_password u = Null \<or> u_role u = Null
      \<or> u_isActive u = Null)"

definition merge_row :: "User \<Rightarrow> row \<Rightarrow> row" where
  "merge_row u old =
     old\<lparr>r_fullName := (case u_fullName u of Val v \<Rightarrow> v | _ \<Rightarrow> r_fullName old),
         r_email := (case u_email u of Val v \<Rightarrow> v | _ \<Rightarrow> r_email old),
         r_password := (case u_password u of Val v \<Rightarrow> v | _ \<Rightarrow> r_password old),
         r_phoneNumber :=
           (case u_phoneNumber u of
              Undefined \<Rightarrow> r_phoneNumber old | Null \<Rightarrow> None | Val v \<Rightarrow> Some v),
         r_role := (case u_role u of Val v \<Rightarrow> v | _ \<Rightarrow> r_role old),
         r_isActive := (case u_isActive u of Val v \<Rightarrow> v | _ \<Rightarrow> r_isActive old)\<rparr>"

definition update_row :: "env \<Rightarrow> User \<Rightarrow> row \<Rightarrow> db \<Rightarrow> (error + User) \<times> db" where
  "update_row e u old rows =
     (let new = merge_row u old in
      if nulls_rejected u then (Inl (QueryFailedError NotNullViolation), rows)
      else if new = old \<and> u_password u = Undefined then (Inr u, rows)
      else if r_email new \<noteq> r_email old \<and> r_email new \<in> set (map r_email rows)
      then (Inl (QueryFailedError UniqueViolation), rows)
      else (Inr (u\<lparr>u_updatedAt := Val (clock e)\<rparr>),
            map (\<lambda>r. if r_id r = r_id old then new\<lparr>r_updatedAt := clock e\<rparr> else r) rows))"

text \<open>
  \<^verbatim>\<open>userRepository.save(user)\<close>: an instance without \<open>id\<close> is inserted under a generated key;
  one with an \<open>id\<close> is looked up by it, and updated when its row is there.
\<close>

definition save :: "env \<Rightarrow> User \<Rightarrow> db \<Rightarrow> (error + User) \<times> db" where
  "save e u rows =
     (case u_id u of
        Val i \<Rightarrow>
          (case uuid_in i of
             None \<Rightarrow> (Inl (QueryFailedError InvalidTextRepresentation), rows)
           | Some k \<Rightarrow>
               (case row_by_key k rows of
                  None \<Rightarrow> insert_row e k u rows
                | Some old \<Rightarrow> update_row e u old rows))
      | _ \<Rightarrow> insert_row e (gen_uuid e) u rows)"

section \<open>The service\<close>

text \<open>
  \<^verbatim>\<open>UsersService\<close>. Each operation takes the table and returns its result, an exception
  being \<open>Inl\<close>, together with the table after the call.
\<close>

definition create :: "env \<Rightarrow> CreateUserDto \<Rightarrow> db \<Rightarrow> (error + User) \<times> db" where
  "create e dto rows =
     (case repo_findOne_email (c_email dto) rows of
        Some existingUser \<Rightarrow> (Inl (ConflictException ''Email already exists''), rows)
      | None \<Rightarrow> save e (repo_create dto) rows)"

definition findAll :: "db \<Rightarrow> User list" where
  "findAll rows = repo_find rows"

definition findOne :: "string \<Rightarrow> db \<Rightarrow> error + User" where
  "findOne i rows =
     (case repo_findOne_id i rows of
        Inl err \<Rightarrow> Inl err
      | Inr None \<Rightarrow> Inl (NotFoundException (''User with ID '' @ i @ '' not found''))
      | Inr (Some user) \<Rightarrow> Inr user)"

definition findByEmail :: "string \<Rightarrow> db \<Rightarrow> User option" where
  "findByEmail e rows = map_option hydrate_with_password (row_by_email e rows)"

text \<open>
  \<^verbatim>\<open>Object.assign(user, updateUserDto)\<close> copies the properties the input has onto the
  instance, \<^verbatim>\<open>null\<close> as any value, and leaves the others alone.
\<close>

definition assign :: "'a js \<Rightarrow> 'a js \<Rightarrow> 'a js" where
  "assign target source = (case source of Undefined \<Rightarrow> target | Null \<Rightarrow> Null | Val v \<Rightarrow> Val v)"

definition Object_assign :: "User \<Rightarrow> UpdateUserDto \<Rightarrow> User" where
  "Object_assign user dto =
     user\<lparr>u_fullName := assign (u_fullName user) (p_fullName dto),
          u_email := assign (u_email user) (p_email dto),
          u_password := assign (u_password user) (p_password dto),
          u_phoneNumber := assign (u_phoneNumber user) (p_phoneNumber dto),
          u_role := assign (u_role user) (p_role dto),
          u_isActive := assign (u_isActive user) (p_isActive dto)\<rparr>"

text \<open>
  The guard of \<^verbatim>\<open>update\<close>,
  \<^verbatim>\<open>updateUserDto.email && updateUserDto.email !== user.email\<close>, and under it the query
  for a row with that email. An absent property, \<^verbatim>\<open>null\<close> and the empty string are falsy.
\<close>

definition email_changes :: "UpdateUserDto \<Rightarrow> User \<Rightarrow> bool" where
  "email_changes dto user =
     (case p_email dto of
        Undefined \<Rightarrow> False
      | Null \<Rightarrow> False
      | Val v \<Rightarrow> v \<noteq> [] \<and> Val v \<noteq> u_email user)"

definition email_taken :: "UpdateUserDto \<Rightarrow> db \<Rightarrow> bool" where
  "email_taken dto rows =
     (case p_email dto of
        Undefined \<Rightarrow> False
      | Null \<Rightarrow> False
      | Val v \<Rightarrow> repo_findOne_email v rows \<noteq> None)"

definition update :: "env \<Rightarrow> string \<Rightarrow> UpdateUserDto \<Rightarrow> db \<Rightarrow> (error + User) \<times> db" where
  "update e i dto rows =
     (case findOne i rows of
        Inl err \<Rightarrow> (Inl err, rows)
      | Inr user \<Rightarrow>
          if email_changes dto user \<and> email_taken dto rows
          then (Inl (ConflictException ''Email already exists''), rows)
          else save e (Object_assign user dto) rows)"

text \<open>\<^verbatim>\<open>remove\<close>, the soft delete; the result is the \<open>message\<close> of the object returned.\<close>

definition remove_user :: "env \<Rightarrow> string \<Rightarrow> db \<Rightarrow> (error + string) \<times> db" where
  "remove_user e i rows =
     (case findOne i rows of
        Inl err \<Rightarrow> (Inl err, rows)
      | Inr user \<Rightarrow>
          (case save e (user\<lparr>u_isActive := Val False\<rparr>) rows of
             (Inl err, rows') \<Rightarrow> (Inl err, rows')
           | (Inr saved, rows') \<Rightarrow>
               (Inr (''User '' @ template (u_email user) @ '' has been deactivated''), rows')))"

definition isUserActive :: "string \<Rightarrow> db \<Rightarrow> error + bool js" where
  "isUserActive i rows =
     (case findOne i rows of Inl err \<Rightarrow> Inl err | Inr user \<Rightarrow> Inr (u_isActive user))"

section \<open>Validation of the creation input's password\<close>

text \<open>
  The decorators on \<^verbatim>\<open>CreateUserDto.password\<close>: \<^verbatim>\<open>@IsString()\<close> (the type here),
  \<^verbatim>\<open>@IsNotEmpty()\<close>, \<^verbatim>\<open>@MinLength(8)\<close> and \<^verbatim>\<open>@Matches\<close> with the pattern
  \<^verbatim>\<open>/^(?=.*[a-z])(?=.*[A-Z])(?=.*\d)(?=.*[@$!%*?&])[A-Za-z\d@$!%*?&]/\<close>.
  Characters are the 8-bit ones; the dot of the pattern matches every character except
  the line terminators, of which line feed and carriage return are among them.
\<close>

definition lower_chars :: string where
  "lower_chars = ''abcdefghijklmnopqrstuvwxyz''"

definition upper_chars :: string where
  "upper_chars = ''ABCDEFGHIJKLMNOPQRSTUVWXYZ''"

definition digit_chars :: string where
  "digit_chars = ''0123456789''"

definition symbol_chars :: string where
  "symbol_chars = ''@$!%*?&''"

definition line_terminator :: "char \<Rightarrow> bool" where
  "line_terminator c = (c = CHR 0x0A \<or> c = CHR 0x0D)"

text \<open>
  The lookahead \<^verbatim>\<open>(?=.*[cls])\<close> at the start of the input: some character of the class,
  with no line terminator before it.
\<close>

definition lookahead :: "string \<Rightarrow> string \<Rightarrow> bool" where
  "lookahead cls s =
     (find (\<lambda>c. c \<in> set cls) (takeWhile (\<lambda>c. \<not> line_terminator c) s) \<noteq> None)"

text \<open>
  After the four lookaheads the pattern consumes one character of the class
  \<^verbatim>\<open>[A-Za-z\d@$!%*?&]\<close>, and it ends there: no quantifier, no end anchor.
\<close>

definition password_pattern :: "string \<Rightarrow> bool" where
  "password_pattern s =
     (lookahead lower_chars s \<and> lookahead upper_chars s \<and> lookahead digit_chars s
      \<and> lookahead symbol_chars s
      \<and> (case s of [] \<Rightarrow> False
          | c # rest \<Rightarrow> c \<in> set (upper_chars @ lower_chars @ digit_chars @ symbol_chars)))"

text \<open>
  The constraints a password fails, each with its message, in the order in which the
  validation error lists them (the last decorator first); the password is accepted when
  there is none.
\<close>

definition validate_password :: "string \<Rightarrow> (string \<times> string) list" where
  "validate_password s =
     (if password_pattern s then []
      else [(''matches'',
             ''Password must contain uppercase, lowercase, number and special character'')])
     @ (if length s < 8 then [(''minLength'', ''Password must be at least 8 characters'')] else [])
     @ (if s = [] then [(''isNotEmpty'', ''password should not be empty'')] else [])"

section \<open>The token strategy\<close>

text \<open>
  \<^verbatim>\<open>JwtStrategy.validate\<close> receives the decoded payload of a token that the passport
  strategy has already verified, and returns the object that becomes the request's user.
  \<open>iat\<close> and \<open>exp\<close> are the fields the token library adds to the payload.
\<close>

record JwtPayload =
  sub :: string
  email :: string
  role_claim :: string
  iat :: "nat option"
  exp :: "nat option"

record request_user =
  q_id :: string
  q_email :: string
  q_role :: string

definition validate :: "JwtPayload \<Rightarrow> request_user" where
  "validate payload = \<lparr>q_id = sub payload, q_email = email payload, q_role = role_claim payload\<rparr>"

section \<open>Sample inputs\<close>

text \<open>
  Concrete values on which the operations are run below. \<open>sample_hash\<close> stands for
  \<^verbatim>\<open>bcrypt.hash\<close> there; the first creation input is the request shown in the
  documentation of \<^verbatim>\<open>CreateUserDto\<close>.
\<close>

definition sample_hash :: "string \<Rightarrow> string \<Rightarrow> string" where
  "sample_hash p s = ''$2b$10$'' @ s @ rev p"

definition alpha_id :: uuid where
  "alpha_id = Abs_uuid ''a0eebc99-9c0b-4ef8-bb6d-6bb9bd380a11''"

definition beta_id :: uuid where
  "beta_id = Abs_uuid ''b0eebc99-9c0b-4ef8-bb6d-6bb9bd380a22''"

definition gamma_id :: uuid where
  "gamma_id = Abs_uuid ''c0eebc99-9c0b-4ef8-bb6d-6bb9bd380a33''"

definition env_at :: "uuid \<Rightarrow> date \<Rightarrow> env" where
  "env_at k t = \<lparr>gen_uuid = k, clock = t, genSalt = ''N9qo8uLOickgx2ZMRZoMye'', hash = sample_hash\<rparr>"

definition alpha_dto :: CreateUserDto where
  "alpha_dto =
     \<lparr>c_fullName = ''Alpha Code'', c_email = ''alpha@alphashelf.com'',
      c_password = ''MyP@ssw0rd'', c_phoneNumber = Some ''+233123456789'', c_role = None\<rparr>"

definition beta_dto :: CreateUserDto where
  "beta_dto =
     \<lparr>c_fullName = ''Beta Code'', c_email = ''beta@alphashelf.com'',
      c_password = ''0therP@ss'', c_phoneNumber = None, c_role = Some driver\<rparr>"

definition no_fields :: UpdateUserDto where
  "no_fields =
     \<lparr>p_fullName = Undefined, p_email = Undefined, p_password = Undefined,
      p_phoneNumber = Undefined, p_role = Undefined, p_isActive = Undefined\<rparr>"

text \<open>The table after one registration and after two, and the rows they hold.\<close>

definition one_user :: db where
  "one_user = snd (create (env_at alpha_id 1) alpha_dto [])"

definition two_users :: db where
  "two_users = snd (create (env_at beta_id 2) beta_dto one_user)"

definition alpha_row :: row where
  "alpha_row =
     \<lparr>r_id = alpha_id, r_fullName = ''Alpha Code'', r_email = ''alpha@alphashelf.com'',
      r_password = ''$2b$10$N9qo8uLOickgx2ZMRZoMyedr0wss@PyM'',
      r_phoneNumber = Some ''+233123456789'', r_role = customer, r_isActive = True,
      r_createdAt = 1, r_updatedAt = 1\<rparr>"

definition beta_row :: row where
  "beta_row =
     \<lparr>r_id = beta_id, r_fullName = ''Beta Code'', r_email = ''beta@alphashelf.com'',
      r_password = ''$2b$10$N9qo8uLOickgx2ZMRZoMyess@Preht0'',
      r_phoneNumber = None, r_role = driver, r_isActive = True,
      r_createdAt = 2, r_updatedAt = 2\<rparr>"

text \<open>The same table after the second account was deactivated.\<close>

definition beta_removed :: db where
  "beta_removed =
     snd (remove_user (env_at gamma_id 3) ''b0eebc99-9c0b-4ef8-bb6d-6bb9bd380a22'' two_users)"

section \<open>Reading ids\<close>

text \<open>
  What the store reads is always thirty-two digits in lower case, and the output form
  reads back as itself, so a uuid is what its text says: \<open>uuid_in\<close> of a text is the
  uuid whose output form \<open>uuid_text\<close> gives.
\<close>

lemma lower_digit_lowhex: "isxdigit c \<Longrightarrow> lowhex (lower_digit c)"
  by (auto simp: isxdigit_def lowhex_def lower_digit_def)

lemma lowhex_facts:
  "lowhex c \<Longrightarrow> isxdigit c" "lowhex c \<Longrightarrow> lower_digit c = c"
  "lowhex c \<Longrightarrow> (c = CHR ''-'') = False" "lowhex c \<Longrightarrow> (c = CHR ''{'') = False"
  by (auto simp: isxdigit_def lowhex_def lower_digit_def)

lemma read_groups_digits:
  "read_groups n s = Some (ds, r) \<Longrightarrow> length ds = 4 * n \<and> list_all lowhex ds"
proof (induction n s arbitrary: ds r rule: read_groups.induct)
  case (1 s)
  then show ?case by simp
next
  case (2 n a b c d rest)
  then show ?case
    by (auto simp: lower_digit_lowhex split: if_splits option.splits)
qed simp_all

lemma canonical_reads_back:
  assumes "length ds = 32" and "list_all lowhex ds"
  shows "uuid_digits (hyphenate ds) = Some ds"
proof -
  obtain d1 d2 d3 d4 d5 d6 d7 d8 d9 d10 d11 d12 d13 d14 d15 d16 d17 d18 d19 d20 d21 d22 d23 d24
    d25 d26 d27 d28 d29 d30 d31 d32 where
    ds: "ds = [d1, d2, d3, d4, d5, d6, d7, d8, d9, d10, d11, d12, d13, d14, d15, d16, d17, d18,
      d19, d20, d21, d22, d23, d24, d25, d26, d27, d28, d29, d30, d31, d32]"
    using assms(1) by (auto simp: eval_nat_numeral length_Suc_conv)
  show ?thesis
    using assms(2) unfolding ds
    by (simp add: hyphenate_def uuid_digits_def skip_hyphen_def lowhex_facts eval_nat_numeral)
qed

lemma uuid_text_idem: "uuid_text s = Some c \<Longrightarrow> uuid_text c = Some c"
proof -
  assume "uuid_text s = Some c"
  then obtain ds where ds: "uuid_digits s = Some ds" and c: "c = hyphenate ds"
    by (auto simp: uuid_text_def)
  have "length ds = 32 \<and> list_all lowhex ds"
    using ds read_groups_digits[of 8 _ ds]
    by (auto simp: uuid_digits_def split: list.splits if_splits option.splits)
  then show ?thesis
    unfolding c by (simp add: uuid_text_def canonical_reads_back)
qed

lemma uuid_in_out: "uuid_in (uuid_out k) = Some k"
  using uuid_out[of k] by (simp add: uuid_in_def uuid_out_inverse)

lemma uuid_in_text: "uuid_in s = Some k \<longleftrightarrow> uuid_text s = Some (uuid_out k)"
proof
  assume "uuid_in s = Some k"
  then obtain c where c: "uuid_text s = Some c" and k: "k = Abs_uuid c"
    by (auto simp: uuid_in_def)
  from uuid_text_idem[OF c] show "uuid_text s = Some (uuid_out k)"
    using c k by (simp add: Abs_uuid_inverse)
next
  assume "uuid_text s = Some (uuid_out k)"
  then show "uuid_in s = Some k"
    by (simp add: uuid_in_def uuid_out_inverse)
qed

lemmas uuid_run = uuid_text_def uuid_digits_def hyphenate_def isxdigit_def lower_digit_def
  skip_hyphen_def eval_nat_numeral

lemma sample_ids:
  "uuid_out alpha_id = ''a0eebc99-9c0b-4ef8-bb6d-6bb9bd380a11''"
  "uuid_out beta_id = ''b0eebc99-9c0b-4ef8-bb6d-6bb9bd380a22''"
  "uuid_out gamma_id = ''c0eebc99-9c0b-4ef8-bb6d-6bb9bd380a33''"
  by (simp_all add: alpha_id_def beta_id_def gamma_id_def Abs_uuid_inverse uuid_run)

lemma sample_ids_distinct:
  "alpha_id \<noteq> beta_id" "beta_id \<noteq> alpha_id" "alpha_id \<noteq> gamma_id" "gamma_id \<noteq> alpha_id"
  "beta_id \<noteq> gamma_id" "gamma_id \<noteq> beta_id"
  using sample_ids by (auto simp del: uuid_out_inject simp: uuid_out_inject[symmetric])

lemma sample_ids_read:
  "uuid_in ''a0eebc99-9c0b-4ef8-bb6d-6bb9bd380a11'' = Some alpha_id"
  "uuid_in ''b0eebc99-9c0b-4ef8-bb6d-6bb9bd380a22'' = Some beta_id"
  "uuid_in ''c0eebc99-9c0b-4ef8-bb6d-6bb9bd380a33'' = Some gamma_id"
  "uuid_in ''{B0EEBC99-9C0B4EF8-BB6D6BB9-BD380A22}'' = Some beta_id"
  "uuid_in ''id-9'' = None"
  by (simp_all add: uuid_in_text sample_ids) (simp_all add: uuid_in_def uuid_run)

section \<open>Looking rows up\<close>

lemma row_by_key_None: "row_by_key k rows = None \<longleftrightarrow> k \<notin> set (map r_id rows)"
  by (auto simp: row_by_key_def find_None_iff)

lemma row_by_email_None: "row_by_email v rows = None \<longleftrightarrow> v \<notin> set (map r_email rows)"
  by (auto simp: row_by_email_def find_None_iff)

lemma row_by_key_Some: "row_by_key k rows = Some r \<Longrightarrow> r \<in> set rows \<and> r_id r = k"
  by (auto simp: row_by_key_def find_Some_iff)

lemma row_by_key_replace:
  "r_id new = k \<Longrightarrow> row_by_key k rows = Some old \<Longrightarrow>
   row_by_key k (map (\<lambda>r. if r_id r = k then new else r) rows) = Some new"
  by (induction rows) (auto simp: row_by_key_def)

lemma others_replace:
  "filter (\<lambda>r. r_id r \<noteq> k) (map (\<lambda>r. if r_id r = k then new else r) rows)
   = filter (\<lambda>r. r_id r \<noteq> k) rows" if "r_id new = k"
  using that by (induction rows) auto

lemma findOne_found:
  "uuid_in i = Some k \<Longrightarrow> row_by_key k rows = Some old \<Longrightarrow> findOne i rows = Inr (hydrate old)"
  by (simp add: findOne_def repo_findOne_id_def)

lemma findOne_missing:
  "uuid_in i = Some k \<Longrightarrow> row_by_key k rows = None \<Longrightarrow>
   findOne i rows = Inl (NotFoundException (''User with ID '' @ i @ '' not found''))"
  by (simp add: findOne_def repo_findOne_id_def)

lemma findOne_unreadable:
  "uuid_in i = None \<Longrightarrow> findOne i rows = Inl (QueryFailedError InvalidTextRepresentation)"
  by (simp add: findOne_def repo_findOne_id_def)

lemma save_existing:
  "row_by_key k rows = Some old \<Longrightarrow> u_id u = Val (uuid_out k) \<Longrightarrow>
   save e u rows = update_row e u old rows"
  by (simp add: save_def uuid_in_out)

lemma u_id_assign: "u_id (Object_assign u dto) = u_id u"
  by (simp add: Object_assign_def)

section \<open>The sample tables\<close>

lemmas run_defs =
  create_def repo_findOne_email_def row_by_email_def save_def repo_create_def optional_def
  nullable_def insert_row_def hashPasswordBeforeInsert_def Let_def
  update_def findOne_def repo_findOne_id_def row_by_key_def hydrate_def email_changes_def
  email_taken_def Object_assign_def assign_def update_row_def merge_row_def nulls_rejected_def
  remove_user_def template_def

lemmas sample_run = sample_ids sample_ids_distinct sample_ids_read uuid_in_out

lemma one_user_rows: "one_user = [alpha_row]"
  by (simp add: one_user_def alpha_row_def alpha_dto_def env_at_def sample_hash_def run_defs)

lemma two_users_rows: "two_users = [alpha_row, beta_row]"
  by (simp add: two_users_def one_user_rows alpha_row_def beta_row_def beta_dto_def env_at_def
      sample_hash_def run_defs sample_run)

lemma beta_removed_rows:
  "beta_removed = [alpha_row, beta_row\<lparr>r_isActive := False, r_updatedAt := 3\<rparr>]"
  by (simp add: beta_removed_def two_users_rows alpha_row_def beta_row_def env_at_def run_defs
      sample_run)

lemma sample_lookups:
  "row_by_key alpha_id two_users = Some alpha_row"
  "row_by_key beta_id two_users = Some beta_row"
  "row_by_key gamma_id two_users = None"
  "row_by_key beta_id beta_removed = Some (beta_row\<lparr>r_isActive := False, r_updatedAt := 3\<rparr>)"
  by (simp_all add: two_users_rows beta_removed_rows row_by_key_def alpha_row_def
      beta_row_def sample_run)

section \<open>Reading an account\<close>

text \<open>
  C9, as stated, says that \<open>findOne\<close> fails with the not-found exception exactly when no
  account has the id. For an id that is not the text of a uuid, such as \<open>id-9\<close>, no account
  has it, and the call fails with the store's error on the query instead.
\<close>

theorem findOne_unreadable_id_counterexample:
  "findOne ''id-9'' two_users = Inl (QueryFailedError InvalidTextRepresentation)
   \<and> ''id-9'' \<notin> set (map uuid_out (map r_id two_users))"
  by (simp add: findOne_def repo_findOne_id_def sample_run two_users_rows alpha_row_def beta_row_def)

text \<open>
  C9, amended. For every id that the store reads as a uuid, \<open>findOne\<close> fails with the
  not-found exception exactly when no row has that uuid; when one has, it returns that
  account, every column of the row except the password, which the instance does not
  carry. Whether the account is active plays no part.
\<close>

theorem findOne_by_id:
  assumes "uuid_in i = Some k"
  shows "(findOne i rows = Inl (NotFoundException (''User with ID '' @ i @ '' not found''))
          \<longleftrightarrow> k \<notin> set (map r_id rows))
       \<and> (k \<in> set (map r_id rows) \<longrightarrow>
            (\<exists>r \<in> set rows. r_id r = k \<and>
               findOne i rows =
                 Inr \<lparr>u_id = Val (uuid_out k), u_fullName = Val (r_fullName r),
                      u_email = Val (r_email r), u_password = Undefined,
                      u_phoneNumber = (case r_phoneNumber r of None \<Rightarrow> Null | Some p \<Rightarrow> Val p),
                      u_role = Val (r_role r), u_isActive = Val (r_isActive r),
                      u_createdAt = Val (r_createdAt r), u_updatedAt = Val (r_updatedAt r)\<rparr>))"
proof (cases "row_by_key k rows")
  case None
  then show ?thesis
    using row_by_key_None[of k rows] by (simp add: findOne_missing[OF assms])
next
  case (Some r)
  then have "r \<in> set rows" "r_id r = k"
    using row_by_key_Some by blast+
  moreover have "findOne i rows = Inr (hydrate r)"
    using assms Some by (rule findOne_found)
  ultimately show ?thesis
    by (auto simp: hydrate_def nullable_def)
qed

text \<open>
  The table after a deactivation: the inactive account is read as any other, here under
  another spelling of its id; and a uuid no row has.
\<close>

theorem findOne_by_id_witness:
  "uuid_in ''{B0EEBC99-9C0B4EF8-BB6D6BB9-BD380A22}'' = Some beta_id
   \<and> beta_id \<in> set (map r_id beta_removed)
   \<and> findOne ''{B0EEBC99-9C0B4EF8-BB6D6BB9-BD380A22}'' beta_removed
     = Inr \<lparr>u_id = Val ''b0eebc99-9c0b-4ef8-bb6d-6bb9bd380a22'', u_fullName = Val ''Beta Code'',
            u_email = Val ''beta@alphashelf.com'', u_password = Undefined,
            u_phoneNumber = Null, u_role = Val driver, u_isActive = Val False,
            u_createdAt = Val 2, u_updatedAt = Val 3\<rparr>
   \<and> uuid_in ''c0eebc99-9c0b-4ef8-bb6d-6bb9bd380a33'' = Some gamma_id
   \<and> gamma_id \<notin> set (map r_id two_users)
   \<and> findOne ''c0eebc99-9c0b-4ef8-bb6d-6bb9bd380a33'' two_users
     = Inl (NotFoundException ''User with ID c0eebc99-9c0b-4ef8-bb6d-6bb9bd380a33 not found'')"
proof -
  have b: "uuid_in ''{B0EEBC99-9C0B4EF8-BB6D6BB9-BD380A22}'' = Some beta_id"
    and g: "uuid_in ''c0eebc99-9c0b-4ef8-bb6d-6bb9bd380a33'' = Some gamma_id"
    by (rule sample_ids_read)+
  have there: "beta_id \<in> set (map r_id beta_removed)"
    and missing: "gamma_id \<notin> set (map r_id two_users)"
    by (simp_all add: beta_removed_rows two_users_rows alpha_row_def beta_row_def sample_run)
  show ?thesis
    using findOne_by_id[OF b, of beta_removed] findOne_by_id[OF g, of two_users] b g there missing
    by (auto simp: beta_removed_rows two_users_rows alpha_row_def beta_row_def sample_run)
qed

section \<open>Creating an account\<close>

text \<open>
  C2. The claim is that \<open>create\<close> persists the account and returns it without the
  password hash. On the first registration the row is persisted, but the value returned is
  the saved instance, and it carries \<open>password\<close>, holding the digest.
\<close>

theorem create_returns_password:
  "create e alpha_dto [] =
     (Inr \<lparr>u_id = Val (uuid_out (gen_uuid e)), u_fullName = Val ''Alpha Code'',
           u_email = Val ''alpha@alphashelf.com'',
           u_password = Val (hash e ''MyP@ssw0rd'' (genSalt e)),
           u_phoneNumber = Val ''+233123456789'', u_role = Val customer,
           u_isActive = Val True, u_createdAt = Val (clock e), u_updatedAt = Val (clock e)\<rparr>,
      [\<lparr>r_id = gen_uuid e, r_fullName = ''Alpha Code'', r_email = ''alpha@alphashelf.com'',
        r_password = hash e ''MyP@ssw0rd'' (genSalt e),
        r_phoneNumber = Some ''+233123456789'', r_role = customer, r_isActive = True,
        r_createdAt = clock e, r_updatedAt = clock e\<rparr>])"
  by (simp add: create_def repo_findOne_email_def row_by_email_def save_def repo_create_def
      optional_def insert_row_def hashPasswordBeforeInsert_def alpha_dto_def Let_def)



section \<open>Updating an account\<close>

lemma update_found:
  assumes "uuid_in i = Some k" and "row_by_key k rows = Some old"
  shows "update e i dto rows =
     (if email_changes dto (hydrate old) \<and> email_taken dto rows
      then (Inl (ConflictException ''Email already exists''), rows)
      else update_row e (Object_assign (hydrate old) dto) old rows)"
proof -
  have "r_id old = k" using assms(2) row_by_key_Some by blast
  then have "u_id (Object_assign (hydrate old) dto) = Val (uuid_out k)"
    by (simp add: u_id_assign hydrate_def)
  then have "save e (Object_assign (hydrate old) dto) rows
             = update_row e (Object_assign (hydrate old) dto) old rows"
    using assms(2) by (rule save_existing[rotated])
  then show ?thesis
    by (simp add: update_def findOne_found[OF assms])
qed

lemma update_row_result:
  "update_row e u old rows =
     (if nulls_rejected u then (Inl (QueryFailedError NotNullViolation), rows)
      else if merge_row u old = old \<and> u_password u = Undefined then (Inr u, rows)
      else if r_email (merge_row u old) \<noteq> r_email old
              \<and> r_email (merge_row u old) \<in> set (map r_email rows)
      then (Inl (QueryFailedError UniqueViolation), rows)
      else (Inr (u\<lparr>u_updatedAt := Val (clock e)\<rparr>),
            map (\<lambda>r. if r_id r = r_id old then (merge_row u old)\<lparr>r_updatedAt := clock e\<rparr> else r)
              rows))"
  by (simp add: update_row_def Let_def)

lemma update_row_not_conflict: "fst (update_row e u old rows) \<noteq> Inl (ConflictException m)"
  by (simp add: update_row_result)

lemma merged_fields:
  "r_id (merge_row (Object_assign (hydrate old) dto) old) = r_id old"
  "r_createdAt (merge_row (Object_assign (hydrate old) dto) old) = r_createdAt old"
  "r_updatedAt (merge_row (Object_assign (hydrate old) dto) old) = r_updatedAt old"
  "r_fullName (merge_row (Object_assign (hydrate old) dto) old)
     = (case p_fullName dto of Val v \<Rightarrow> v | _ \<Rightarrow> r_fullName old)"
  "r_email (merge_row (Object_assign (hydrate old) dto) old)
     = (case p_email dto of Val v \<Rightarrow> v | _ \<Rightarrow> r_email old)"
  "r_password (merge_row (Object_assign (hydrate old) dto) old)
     = (case p_password dto of Val v \<Rightarrow> v | _ \<Rightarrow> r_password old)"
  "r_phoneNumber (merge_row (Object_assign (hydrate old) dto) old)
     = (case p_phoneNumber dto of Undefined \<Rightarrow> r_phoneNumber old | Null \<Rightarrow> None | Val v \<Rightarrow> Some v)"
  "r_role (merge_row (Object_assign (hydrate old) dto) old)
     = (case p_role dto of Val v \<Rightarrow> v | _ \<Rightarrow> r_role old)"
  "r_isActive (merge_row (Object_assign (hydrate old) dto) old)
     = (case p_isActive dto of Val v \<Rightarrow> v | _ \<Rightarrow> r_isActive old)"
  by (simp_all add: merge_row_def Object_assign_def assign_def hydrate_def nullable_def
      split: js.splits option.splits)

lemma assigned_password: "u_password (Object_assign (hydrate old) dto) = p_password dto"
  by (simp add: Object_assign_def assign_def hydrate_def split: js.splits)

lemma assigned_email:
  "p_email dto \<noteq> Undefined \<Longrightarrow> u_email (Object_assign (hydrate old) dto) = p_email dto"
  by (simp add: Object_assign_def assign_def hydrate_def split: js.splits)

lemma assigned_nulls:
  "nulls_rejected (Object_assign (hydrate old) dto)
   \<longleftrightarrow> p_fullName dto = Null \<or> p_email dto = Null \<or> p_password dto = Null
       \<or> p_role dto = Null \<or> p_isActive dto = Null"
  by (simp add: nulls_rejected_def Object_assign_def assign_def hydrate_def split: js.splits)

lemma update_cases:
  assumes "uuid_in i = Some k" and "row_by_key k rows = Some old"
    and res: "res = update e i dto rows"
  obtains
    (conflict) v where "p_email dto = Val v" "v \<noteq> []" "v \<noteq> r_email old"
      "v \<in> set (map r_email rows)"
      "res = (Inl (ConflictException ''Email already exists''), rows)"
  | (nulls) "p_fullName dto = Null \<or> p_email dto = Null \<or> p_password dto = Null
        \<or> p_role dto = Null \<or> p_isActive dto = Null"
      "res = (Inl (QueryFailedError NotNullViolation), rows)"
  | (unchanged) "merge_row (Object_assign (hydrate old) dto) old = old"
      "p_password dto = Undefined"
      "res = (Inr (Object_assign (hydrate old) dto), rows)"
      "p_email dto \<noteq> Null"
  | (violation) v where "p_email dto = Val v" "v \<noteq> r_email old"
      "v \<in> set (map r_email rows)"
      "res = (Inl (QueryFailedError UniqueViolation), rows)"
  | (written) rows' where
      "\<not> (p_fullName dto = Null \<or> p_email dto = Null \<or> p_password dto = Null
          \<or> p_role dto = Null \<or> p_isActive dto = Null)"
      "r_email (merge_row (Object_assign (hydrate old) dto) old) = r_email old
       \<or> r_email (merge_row (Object_assign (hydrate old) dto) old) \<notin> set (map r_email rows)"
      "res = (Inr ((Object_assign (hydrate old) dto)\<lparr>u_updatedAt := Val (clock e)\<rparr>), rows')"
      "row_by_key k rows'
         = Some ((merge_row (Object_assign (hydrate old) dto) old)\<lparr>r_updatedAt := clock e\<rparr>)"
      "filter (\<lambda>r. r_id r \<noteq> k) rows' = filter (\<lambda>r. r_id r \<noteq> k) rows"
proof -
  let ?u = "Object_assign (hydrate old) dto"
  let ?m = "merge_row ?u old"
  let ?w = "?m\<lparr>r_updatedAt := clock e\<rparr>"
  let ?rows' = "map (\<lambda>r. if r_id r = k then ?w else r) rows"
  have k: "r_id old = k" using assms(2) row_by_key_Some by blast
  have w: "r_id ?w = k" using k by (simp add: merged_fields)
  show thesis
  proof (cases "email_changes dto (hydrate old) \<and> email_taken dto rows")
    case True
    then obtain v where "p_email dto = Val v" "v \<noteq> []" "v \<noteq> r_email old"
      "v \<in> set (map r_email rows)"
      using row_by_email_None
      by (auto simp: email_changes_def email_taken_def repo_findOne_email_def hydrate_def
          split: js.splits)
    moreover have "res = (Inl (ConflictException ''Email already exists''), rows)"
      using True res by (simp add: update_found[OF assms(1,2)])
    ultimately show thesis by (rule conflict)
  next
    case False
    then have upd: "update e i dto rows = update_row e ?u old rows"
      by (auto simp: update_found[OF assms(1,2)])
    show thesis
    proof (cases "nulls_rejected ?u")
      case True
      then have "p_fullName dto = Null \<or> p_email dto = Null \<or> p_password dto = Null
          \<or> p_role dto = Null \<or> p_isActive dto = Null"
        "res = (Inl (QueryFailedError NotNullViolation), rows)"
        using upd res by (simp_all add: update_row_result assigned_nulls)
      then show thesis by (rule nulls)
    next
      case sound: False
      show thesis
      proof (cases "?m = old \<and> u_password ?u = Undefined")
        case True
        then have "?m = old" "p_password dto = Undefined" "res = (Inr ?u, rows)"
          "p_email dto \<noteq> Null"
          using upd res sound by (simp_all add: update_row_result assigned_password assigned_nulls)
        then show thesis by (rule unchanged)
      next
        case changed: False
        show thesis
        proof (cases "r_email ?m \<noteq> r_email old \<and> r_email ?m \<in> set (map r_email rows)")
          case True
          then obtain v where "p_email dto = Val v" "v \<noteq> r_email old"
            "v \<in> set (map r_email rows)"
            by (cases "p_email dto") (auto simp: merged_fields)
          moreover have "res = (Inl (QueryFailedError UniqueViolation), rows)"
            using upd res sound changed True by (simp add: update_row_result)
          ultimately show thesis by (rule violation)
        next
          case False
          have "res = (Inr (?u\<lparr>u_updatedAt := Val (clock e)\<rparr>), ?rows')"
            using upd res sound changed False k by (simp add: update_row_result)
          moreover have "row_by_key k ?rows' = Some ?w"
            using w assms(2) by (rule row_by_key_replace)
          moreover have "filter (\<lambda>r. r_id r \<noteq> k) ?rows' = filter (\<lambda>r. r_id r \<noteq> k) rows"
            using w by (rule others_replace)
          moreover have "\<not> (p_fullName dto = Null \<or> p_email dto = Null \<or> p_password dto = Null
              \<or> p_role dto = Null \<or> p_isActive dto = Null)"
            using sound by (simp add: assigned_nulls)
          moreover have "r_email ?m = r_email old \<or> r_email ?m \<notin> set (map r_email rows)"
            using False by blast
          ultimately show thesis
            using written by blast
        qed
      qed
    qed
  qed
qed

text \<open>
  C1. The claim is that an update whose input has a password stores a digest of it, never
  the plaintext. After one registration, an update with the password \<open>NewP@ss123\<close> leaves
  exactly that string in the row's password column: the only hashing hook runs before an
  insert, and this save is an update.
\<close>

theorem update_stores_plaintext:
  "map r_password
     (snd (update e2 (uuid_out (gen_uuid e1)) (no_fields\<lparr>p_password := Val ''NewP@ss123''\<rparr>)
            (snd (create e1 alpha_dto []))))
   = [''NewP@ss123'']"
  by (simp add: create_def repo_findOne_email_def row_by_email_def save_def repo_create_def
      optional_def nullable_def insert_row_def hashPasswordBeforeInsert_def alpha_dto_def Let_def
      update_def findOne_def repo_findOne_id_def row_by_key_def hydrate_def email_changes_def
      email_taken_def no_fields_def Object_assign_def assign_def update_row_def merge_row_def
      nulls_rejected_def uuid_in_out)

text \<open>
  C4. An update of an existing account leaves every column whose property is absent from
  the input as it was, and never touches \<open>id\<close> or \<open>createdAt\<close>, nor any other account's row.
  With an input of \<open>phoneNumber\<close> alone it succeeds and the row holds the new number, so the
  row differs from the previous one in \<open>phoneNumber\<close> and \<open>updatedAt\<close> at most.
\<close>

theorem update_frame:
  assumes "uuid_in i = Some k" and "row_by_key k rows = Some old"
  shows "\<exists>new. row_by_key k (snd (update e i dto rows)) = Some new
     \<and> r_id new = r_id old \<and> r_createdAt new = r_createdAt old
     \<and> (p_fullName dto = Undefined \<longrightarrow> r_fullName new = r_fullName old)
     \<and> (p_email dto = Undefined \<longrightarrow> r_email new = r_email old)
     \<and> (p_password dto = Undefined \<longrightarrow> r_password new = r_password old)
     \<and> (p_phoneNumber dto = Undefined \<longrightarrow> r_phoneNumber new = r_phoneNumber old)
     \<and> (p_role dto = Undefined \<longrightarrow> r_role new = r_role old)
     \<and> (p_isActive dto = Undefined \<longrightarrow> r_isActive new = r_isActive old)
     \<and> (dto = no_fields\<lparr>p_phoneNumber := Val ph\<rparr> \<longrightarrow>
          (\<exists>u. fst (update e i dto rows) = Inr u) \<and> r_phoneNumber new = Some ph)
     \<and> filter (\<lambda>r. r_id r \<noteq> k) (snd (update e i dto rows)) = filter (\<lambda>r. r_id r \<noteq> k) rows"
proof -
  from assms refl[of "update e i dto rows"] show ?thesis
  proof (cases rule: update_cases)
    case (conflict v)
    then show ?thesis using assms by (auto simp: no_fields_def)
  next
    case nulls
    then show ?thesis using assms by (auto simp: no_fields_def)
  next
    case unchanged
    have "r_phoneNumber old = Some ph" if "dto = no_fields\<lparr>p_phoneNumber := Val ph\<rparr>"
      using arg_cong[OF unchanged(1), of r_phoneNumber] that by (simp add: merged_fields)
    then show ?thesis using assms unchanged by auto
  next
    case (violation v)
    then show ?thesis using assms by (auto simp: no_fields_def)
  next
    case (written rows')
    then show ?thesis by (auto simp: merged_fields)
  qed
qed

text \<open>An input of \<open>phoneNumber\<close> alone, and one of \<open>fullName\<close> alone.\<close>

theorem update_frame_witness:
  "uuid_in ''a0eebc99-9c0b-4ef8-bb6d-6bb9bd380a11'' = Some alpha_id
   \<and> row_by_key alpha_id two_users = Some alpha_row
   \<and> map_option r_phoneNumber
        (row_by_key alpha_id
          (snd (update (env_at gamma_id 3) ''a0eebc99-9c0b-4ef8-bb6d-6bb9bd380a11''
                 (no_fields\<lparr>p_phoneNumber := Val ''+233999999999''\<rparr>) two_users)))
       = Some (Some ''+233999999999'')
   \<and> map_option r_password
        (row_by_key alpha_id
          (snd (update (env_at gamma_id 3) ''a0eebc99-9c0b-4ef8-bb6d-6bb9bd380a11''
                 (no_fields\<lparr>p_phoneNumber := Val ''+233999999999''\<rparr>) two_users)))
       = Some (r_password alpha_row)
   \<and> map_option r_phoneNumber
        (row_by_key alpha_id
          (snd (update (env_at gamma_id 3) ''a0eebc99-9c0b-4ef8-bb6d-6bb9bd380a11''
                 (no_fields\<lparr>p_fullName := Val ''Alpha''\<rparr>) two_users)))
       = Some (r_phoneNumber alpha_row)"
proof -
  have h: "uuid_in ''a0eebc99-9c0b-4ef8-bb6d-6bb9bd380a11'' = Some alpha_id"
    by (rule sample_ids_read)
  have r: "row_by_key alpha_id two_users = Some alpha_row"
    by (rule sample_lookups)
  show ?thesis
    using update_frame[OF h r, of "env_at gamma_id 3"
        "no_fields\<lparr>p_phoneNumber := Val ''+233999999999''\<rparr>" "''+233999999999''"]
      update_frame[OF h r, of "env_at gamma_id 3" "no_fields\<lparr>p_fullName := Val ''Alpha''\<rparr>" "''x''"]
      h r
    by (auto simp: no_fields_def)
qed

text \<open>
  C5. For an update request on an existing account whose input has an email (one that
  passed the validation of the request) different from the account's current one, the
  result is the conflict exception exactly when another row holds that email. When the
  email equals the current one, the guard is false: the merged instance goes straight to
  the save, the result is not the conflict exception, and the update succeeds unless
  another property of the input is \<^verbatim>\<open>null\<close> where the column takes none.
\<close>

theorem update_email_conflict:
  assumes "uuid_in i = Some k" and "row_by_key k rows = Some old"
    and "p_email dto \<noteq> Undefined" and "email_validated (p_email dto)"
  shows "(p_email dto \<noteq> Val (r_email old) \<longrightarrow>
            (fst (update e i dto rows) = Inl (ConflictException ''Email already exists'')
             \<longleftrightarrow> (\<exists>r \<in> set rows. r \<noteq> old \<and> Val (r_email r) = p_email dto)))
       \<and> (p_email dto = Val (r_email old) \<longrightarrow>
            update e i dto rows = save e (Object_assign (hydrate old) dto) rows
            \<and> fst (update e i dto rows) \<noteq> Inl (ConflictException ''Email already exists'')
            \<and> (p_fullName dto \<noteq> Null \<and> p_password dto \<noteq> Null \<and> p_role dto \<noteq> Null
                \<and> p_isActive dto \<noteq> Null \<longrightarrow> (\<exists>u. fst (update e i dto rows) = Inr u)))"
proof (intro conjI impI)
  assume differs: "p_email dto \<noteq> Val (r_email old)"
  show "fst (update e i dto rows) = Inl (ConflictException ''Email already exists'')
        \<longleftrightarrow> (\<exists>r \<in> set rows. r \<noteq> old \<and> Val (r_email r) = p_email dto)"
  proof (cases "p_email dto")
    case Undefined
    with assms(3) show ?thesis by simp
  next
    case Null
    then show ?thesis
      using update_row_not_conflict
      by (simp add: update_found[OF assms(1,2)] email_changes_def)
  next
    case (Val v)
    then have v: "v \<noteq> []" "v \<noteq> r_email old"
      using assms(4) differs by (simp_all add: email_validated_def)
    have held: "(\<exists>r \<in> set rows. r \<noteq> old \<and> r_email r = v) \<longleftrightarrow> row_by_email v rows \<noteq> None"
      using v row_by_email_None[of v rows] by auto
    show ?thesis
      using Val v held update_row_not_conflict
      by (simp add: update_found[OF assms(1,2)] email_changes_def email_taken_def
          repo_findOne_email_def hydrate_def)
  qed
next
  assume same: "p_email dto = Val (r_email old)"
  have k: "r_id old = k" using assms(2) row_by_key_Some by blast
  have "u_id (Object_assign (hydrate old) dto) = Val (uuid_out k)"
    using k by (simp add: u_id_assign hydrate_def)
  then have sv: "save e (Object_assign (hydrate old) dto) rows
      = update_row e (Object_assign (hydrate old) dto) old rows"
    using assms(2) by (rule save_existing[rotated])
  have "\<not> email_changes dto (hydrate old)"
    using same by (simp add: email_changes_def hydrate_def)
  then show upd: "update e i dto rows = save e (Object_assign (hydrate old) dto) rows"
    by (simp add: update_found[OF assms(1,2)] sv)
  show "fst (update e i dto rows) \<noteq> Inl (ConflictException ''Email already exists'')"
    unfolding upd sv by (rule update_row_not_conflict)
  show "\<exists>u. fst (update e i dto rows) = Inr u"
    if "p_fullName dto \<noteq> Null \<and> p_password dto \<noteq> Null \<and> p_role dto \<noteq> Null
        \<and> p_isActive dto \<noteq> Null"
    using assms(1,2) refl[of "update e i dto rows"]
  proof (cases rule: update_cases)
    case (conflict v)
    then show ?thesis using same by simp
  next
    case nulls
    then show ?thesis using same that by simp
  next
    case (violation v)
    then show ?thesis using same by simp
  qed simp_all
qed

text \<open>
  An email another account holds, one nobody holds, \<^verbatim>\<open>null\<close>, and the account's own.
\<close>

theorem update_email_conflict_witness:
  "uuid_in ''a0eebc99-9c0b-4ef8-bb6d-6bb9bd380a11'' = Some alpha_id
   \<and> row_by_key alpha_id two_users = Some alpha_row
   \<and> email_validated (Val ''beta@alphashelf.com'')
   \<and> fst (update (env_at gamma_id 3) ''a0eebc99-9c0b-4ef8-bb6d-6bb9bd380a11''
            (no_fields\<lparr>p_email := Val ''beta@alphashelf.com''\<rparr>) two_users)
       = Inl (ConflictException ''Email already exists'')
   \<and> fst (update (env_at gamma_id 3) ''a0eebc99-9c0b-4ef8-bb6d-6bb9bd380a11''
            (no_fields\<lparr>p_email := Val ''gamma@alphashelf.com''\<rparr>) two_users)
       \<noteq> Inl (ConflictException ''Email already exists'')
   \<and> fst (update (env_at gamma_id 3) ''a0eebc99-9c0b-4ef8-bb6d-6bb9bd380a11''
            (no_fields\<lparr>p_email := Null\<rparr>) two_users)
       \<noteq> Inl (ConflictException ''Email already exists'')
   \<and> \<not> isl (fst (update (env_at gamma_id 3) ''a0eebc99-9c0b-4ef8-bb6d-6bb9bd380a11''
                  (no_fields\<lparr>p_email := Val ''alpha@alphashelf.com''\<rparr>) two_users))"
proof -
  have h: "uuid_in ''a0eebc99-9c0b-4ef8-bb6d-6bb9bd380a11'' = Some alpha_id"
    by (rule sample_ids_read)
  have r: "row_by_key alpha_id two_users = Some alpha_row"
    by (rule sample_lookups)
  have mail: "r_email alpha_row = ''alpha@alphashelf.com''"
    by (simp add: alpha_row_def)
  have held: "\<exists>r \<in> set two_users. r \<noteq> alpha_row \<and> r_email r = ''beta@alphashelf.com''"
    by (simp add: two_users_rows alpha_row_def beta_row_def)
  have free: "\<not> (\<exists>r \<in> set two_users. r \<noteq> alpha_row \<and> r_email r = ''gamma@alphashelf.com'')"
    by (simp add: two_users_rows alpha_row_def beta_row_def)
  have "fst (update (env_at gamma_id 3) ''a0eebc99-9c0b-4ef8-bb6d-6bb9bd380a11''
            (no_fields\<lparr>p_email := Val ''beta@alphashelf.com''\<rparr>) two_users)
       = Inl (ConflictException ''Email already exists'')"
    using update_email_conflict[OF h r, of "no_fields\<lparr>p_email := Val ''beta@alphashelf.com''\<rparr>"
        "env_at gamma_id 3"] held
    by (simp add: mail email_validated_def)
  moreover have "fst (update (env_at gamma_id 3) ''a0eebc99-9c0b-4ef8-bb6d-6bb9bd380a11''
            (no_fields\<lparr>p_email := Val ''gamma@alphashelf.com''\<rparr>) two_users)
       \<noteq> Inl (ConflictException ''Email already exists'')"
    using update_email_conflict[OF h r, of "no_fields\<lparr>p_email := Val ''gamma@alphashelf.com''\<rparr>"
        "env_at gamma_id 3"] free
    by (simp add: mail email_validated_def)
  moreover have "fst (update (env_at gamma_id 3) ''a0eebc99-9c0b-4ef8-bb6d-6bb9bd380a11''
            (no_fields\<lparr>p_email := Null\<rparr>) two_users)
       \<noteq> Inl (ConflictException ''Email already exists'')"
    using update_email_conflict[OF h r, of "no_fields\<lparr>p_email := Null\<rparr>" "env_at gamma_id 3"]
    by (simp add: email_validated_def)
  moreover have "\<not> isl (fst (update (env_at gamma_id 3) ''a0eebc99-9c0b-4ef8-bb6d-6bb9bd380a11''
                  (no_fields\<lparr>p_email := Val ''alpha@alphashelf.com''\<rparr>) two_users))"
    using update_email_conflict[OF h r, of "no_fields\<lparr>p_email := Val ''alpha@alphashelf.com''\<rparr>"
        "env_at gamma_id 3"]
    by (auto simp: mail email_validated_def no_fields_def)
  ultimately show ?thesis using h r by (simp add: email_validated_def)
qed

text \<open>
  C10, as stated, says that an update whose email is present but falsy always overwrites
  the stored email with that value. With \<^verbatim>\<open>null\<close>, which the validation of the request
  lets through, the stored email stays as it was.
\<close>

theorem update_null_email_kept_counterexample:
  "map_option r_email
     (row_by_key alpha_id
        (snd (update (env_at gamma_id 3) ''a0eebc99-9c0b-4ef8-bb6d-6bb9bd380a11''
               (no_fields\<lparr>p_email := Null\<rparr>) two_users)))
   = Some ''alpha@alphashelf.com''
   \<and> fst (update (env_at gamma_id 3) ''a0eebc99-9c0b-4ef8-bb6d-6bb9bd380a11''
            (no_fields\<lparr>p_email := Null\<rparr>) two_users)
       = Inl (QueryFailedError NotNullViolation)"
  by (simp add: two_users_rows alpha_row_def beta_row_def no_fields_def env_at_def run_defs
      sample_run)

text \<open>
  C10, amended. For an update of an existing account whose input has \<^verbatim>\<open>null\<close> or the
  empty string as email, the guard is false: the instance handed to the save carries that
  value as its email, and the result is never the conflict exception. Whenever the update
  succeeds, the stored email is that value; and it does succeed when the value is the
  empty string, no other row holds the empty string, and no other property of the input
  is \<^verbatim>\<open>null\<close> where the column takes none.
\<close>

theorem update_falsy_email:
  assumes "uuid_in i = Some k" and "row_by_key k rows = Some old"
    and "p_email dto = Null \<or> p_email dto = Val []"
  shows "update e i dto rows = save e (Object_assign (hydrate old) dto) rows
       \<and> u_email (Object_assign (hydrate old) dto) = p_email dto
       \<and> fst (update e i dto rows) \<noteq> Inl (ConflictException msg)
       \<and> ((\<exists>u. fst (update e i dto rows) = Inr u) \<longrightarrow>
            map_option (\<lambda>r. Val (r_email r)) (row_by_key k (snd (update e i dto rows)))
              = Some (p_email dto))
       \<and> (p_email dto = Val [] \<and> p_fullName dto \<noteq> Null \<and> p_password dto \<noteq> Null
           \<and> p_role dto \<noteq> Null \<and> p_isActive dto \<noteq> Null
           \<and> ([] \<notin> set (map r_email rows) \<or> r_email old = []) \<longrightarrow>
            (\<exists>u. fst (update e i dto rows) = Inr u)
            \<and> map_option r_email (row_by_key k (snd (update e i dto rows))) = Some [])"
proof -
  let ?u = "Object_assign (hydrate old) dto"
  have k: "r_id old = k" using assms(2) row_by_key_Some by blast
  have "u_id ?u = Val (uuid_out k)"
    using k by (simp add: u_id_assign hydrate_def)
  then have sv: "save e ?u rows = update_row e ?u old rows"
    using assms(2) by (rule save_existing[rotated])
  have "\<not> email_changes dto (hydrate old)"
    using assms(3) by (auto simp: email_changes_def)
  then have upd: "update e i dto rows = save e ?u rows"
    by (simp add: update_found[OF assms(1,2)] sv)
  have a: "u_email ?u = p_email dto"
    using assms(3) by (auto simp: assigned_email)
  have b: "fst (update e i dto rows) \<noteq> Inl (ConflictException msg)"
    unfolding upd sv by (rule update_row_not_conflict)
  have c: "(\<exists>u. fst (update e i dto rows) = Inr u)
          \<and> map_option r_email (row_by_key k (snd (update e i dto rows))) = Some []"
    if "p_email dto = Val [] \<and> p_fullName dto \<noteq> Null \<and> p_password dto \<noteq> Null
        \<and> p_role dto \<noteq> Null \<and> p_isActive dto \<noteq> Null
        \<and> ([] \<notin> set (map r_email rows) \<or> r_email old = [])"
  proof -
    have m: "r_email (merge_row ?u old) = []"
      using that by (simp add: merged_fields)
    from assms(1,2) refl[of "update e i dto rows"] show ?thesis
    proof (cases rule: update_cases)
      case (conflict v)
      then show ?thesis using that by simp
    next
      case nulls
      then show ?thesis using that by simp
    next
      case unchanged
      then show ?thesis using assms(2) m by simp
    next
      case (violation v)
      then show ?thesis using that by auto
    next
      case (written rows')
      then show ?thesis using m by simp
    qed
  qed
  have d: "map_option (\<lambda>r. Val (r_email r)) (row_by_key k (snd (update e i dto rows)))
              = Some (p_email dto)"
    if "\<exists>u. fst (update e i dto rows) = Inr u"
    using assms(1,2) refl[of "update e i dto rows"]
  proof (cases rule: update_cases)
    case (conflict v)
    then show ?thesis using that by simp
  next
    case nulls
    then show ?thesis using that by simp
  next
    case unchanged
    have "r_email old = (case p_email dto of Val v \<Rightarrow> v | _ \<Rightarrow> r_email old)"
      using arg_cong[OF unchanged(1), of r_email] by (simp add: merged_fields)
    then show ?thesis
      using unchanged assms(2,3) by auto
  next
    case (violation v)
    then show ?thesis using that by simp
  next
    case (written rows')
    then show ?thesis using assms(3) by (auto simp: merged_fields)
  qed
  show ?thesis using upd a b c d by blast
qed

text \<open>The first account takes the empty email; with \<^verbatim>\<open>null\<close> there is no conflict either.\<close>

theorem update_falsy_email_witness:
  "uuid_in ''a0eebc99-9c0b-4ef8-bb6d-6bb9bd380a11'' = Some alpha_id
   \<and> row_by_key alpha_id two_users = Some alpha_row
   \<and> [] \<notin> set (map r_email two_users)
   \<and> \<not> isl (fst (update (env_at gamma_id 3) ''a0eebc99-9c0b-4ef8-bb6d-6bb9bd380a11''
                  (no_fields\<lparr>p_email := Val []\<rparr>) two_users))
   \<and> map_option r_email
        (row_by_key alpha_id
           (snd (update (env_at gamma_id 3) ''a0eebc99-9c0b-4ef8-bb6d-6bb9bd380a11''
                  (no_fields\<lparr>p_email := Val []\<rparr>) two_users)))
       = Some []
   \<and> fst (update (env_at gamma_id 3) ''a0eebc99-9c0b-4ef8-bb6d-6bb9bd380a11''
            (no_fields\<lparr>p_email := Null\<rparr>) two_users)
       \<noteq> Inl (ConflictException ''Email already exists'')"
proof -
  have h: "uuid_in ''a0eebc99-9c0b-4ef8-bb6d-6bb9bd380a11'' = Some alpha_id"
    by (rule sample_ids_read)
  have r: "row_by_key alpha_id two_users = Some alpha_row"
    by (rule sample_lookups)
  have free: "[] \<notin> set (map r_email two_users)"
    by (simp add: two_users_rows alpha_row_def beta_row_def)
  have "\<not> isl (fst (update (env_at gamma_id 3) ''a0eebc99-9c0b-4ef8-bb6d-6bb9bd380a11''
                  (no_fields\<lparr>p_email := Val []\<rparr>) two_users))
      \<and> map_option r_email
        (row_by_key alpha_id
           (snd (update (env_at gamma_id 3) ''a0eebc99-9c0b-4ef8-bb6d-6bb9bd380a11''
                  (no_fields\<lparr>p_email := Val []\<rparr>) two_users)))
       = Some []"
    using update_falsy_email[OF h r, of "no_fields\<lparr>p_email := Val []\<rparr>" "env_at gamma_id 3"
        "''Email already exists''"] free
    by (auto simp: no_fields_def)
  moreover have "fst (update (env_at gamma_id 3) ''a0eebc99-9c0b-4ef8-bb6d-6bb9bd380a11''
            (no_fields\<lparr>p_email := Null\<rparr>) two_users)
       \<noteq> Inl (ConflictException ''Email already exists'')"
    using update_falsy_email[OF h r, of "no_fields\<lparr>p_email := Null\<rparr>" "env_at gamma_id 3"
        "''Email already exists''"]
    by (auto simp del: fst_conv)
  ultimately show ?thesis using h r free by simp
qed

section \<open>Deactivating an account\<close>

lemma remove_found:
  assumes "uuid_in i = Some k" and "row_by_key k rows = Some old"
  shows "remove_user e i rows =
     (Inr (''User '' @ r_email old @ '' has been deactivated''),
      if r_isActive old
      then map (\<lambda>r. if r_id r = k then old\<lparr>r_isActive := False, r_updatedAt := clock e\<rparr> else r) rows
      else rows)"
proof -
  let ?u = "(hydrate old)\<lparr>u_isActive := Val False\<rparr>"
  have k: "r_id old = k" using assms(2) row_by_key_Some by blast
  have m: "merge_row ?u old = old\<lparr>r_isActive := False\<rparr>"
    by (simp add: merge_row_def hydrate_def nullable_def split: option.splits)
  have s: "save e ?u rows = update_row e ?u old rows"
    using assms(2) k by (simp add: save_def hydrate_def uuid_in_out)
  have same: "(old\<lparr>r_isActive := False\<rparr> = old) = (\<not> r_isActive old)"
    by (cases old) auto
  have em: "template (u_email (hydrate old)) = r_email old" and pw: "u_password ?u = Undefined"
    and nn: "\<not> nulls_rejected ?u"
    by (simp_all add: hydrate_def template_def nulls_rejected_def)
  show ?thesis
    using k by (simp add: remove_user_def findOne_found[OF assms] s update_row_result m same em pw nn)
qed

text \<open>
  C6. For an existing account, \<open>remove\<close> succeeds with the message naming the account's
  email, and the account is inactive afterwards; a second call on the same id succeeds
  with the same message and leaves the table as the first call left it.
\<close>

theorem remove_idempotent:
  assumes "uuid_in i = Some k" and "row_by_key k rows = Some old"
  shows "fst (remove_user e i rows) = Inr (''User '' @ r_email old @ '' has been deactivated'')
       \<and> map_option r_isActive (row_by_key k (snd (remove_user e i rows))) = Some False
       \<and> remove_user e' i (snd (remove_user e i rows))
           = (Inr (''User '' @ r_email old @ '' has been deactivated''), snd (remove_user e i rows))"
proof (cases "r_isActive old")
  case False
  then show ?thesis
    using assms by (simp add: remove_found[OF assms])
next
  case True
  let ?w = "old\<lparr>r_isActive := False, r_updatedAt := clock e\<rparr>"
  let ?rows' = "map (\<lambda>r. if r_id r = k then ?w else r) rows"
  have k: "r_id old = k" using assms(2) row_by_key_Some by blast
  then have "r_id ?w = k" by simp
  then have w: "row_by_key k ?rows' = Some ?w"
    using assms(2) by (rule row_by_key_replace)
  have first: "remove_user e i rows
      = (Inr (''User '' @ r_email old @ '' has been deactivated''), ?rows')"
    using True by (simp add: remove_found[OF assms])
  have second: "remove_user e' i ?rows'
      = (Inr (''User '' @ r_email old @ '' has been deactivated''), ?rows')"
    by (simp add: remove_found[OF assms(1) w])
  show ?thesis
    unfolding first using w second by simp
qed

text \<open>Deactivating the first account twice.\<close>

theorem remove_idempotent_witness:
  "uuid_in ''a0eebc99-9c0b-4ef8-bb6d-6bb9bd380a11'' = Some alpha_id
   \<and> row_by_key alpha_id two_users = Some alpha_row
   \<and> fst (remove_user (env_at gamma_id 3) ''a0eebc99-9c0b-4ef8-bb6d-6bb9bd380a11'' two_users)
       = Inr ''User alpha@alphashelf.com has been deactivated''
   \<and> map_option r_isActive
        (row_by_key alpha_id
           (snd (remove_user (env_at gamma_id 3) ''a0eebc99-9c0b-4ef8-bb6d-6bb9bd380a11'' two_users)))
       = Some False
   \<and> remove_user (env_at gamma_id 4) ''a0eebc99-9c0b-4ef8-bb6d-6bb9bd380a11''
        (snd (remove_user (env_at gamma_id 3) ''a0eebc99-9c0b-4ef8-bb6d-6bb9bd380a11'' two_users))
       = (Inr ''User alpha@alphashelf.com has been deactivated'',
          snd (remove_user (env_at gamma_id 3) ''a0eebc99-9c0b-4ef8-bb6d-6bb9bd380a11'' two_users))"
proof -
  have h: "uuid_in ''a0eebc99-9c0b-4ef8-bb6d-6bb9bd380a11'' = Some alpha_id"
    by (rule sample_ids_read)
  have r: "row_by_key alpha_id two_users = Some alpha_row"
    by (rule sample_lookups)
  show ?thesis
    using remove_idempotent[OF h r, of "env_at gamma_id 3" "env_at gamma_id 4"] h r
    by (simp add: alpha_row_def)
qed

section \<open>The password rule\<close>

text \<open>
  C8. The claim is that a password is accepted exactly when it has at least 8 characters
  and contains a lowercase letter, an uppercase letter, a digit and one of the symbols.
  \<open>#Passw0rd@\<close> has all of these and is rejected, with the message of the pattern: the
  pattern also requires the first character to be a letter, a digit or one of the symbols.
\<close>

theorem password_first_character:
  "validate_password ''#Passw0rd@''
     = [(''matches'', ''Password must contain uppercase, lowercase, number and special character'')]
   \<and> length ''#Passw0rd@'' = 10
   \<and> CHR ''a'' \<in> set ''#Passw0rd@'' \<and> CHR ''P'' \<in> set ''#Passw0rd@''
   \<and> CHR ''0'' \<in> set ''#Passw0rd@'' \<and> CHR ''@'' \<in> set ''#Passw0rd@''"
  by (simp add: validate_password_def password_pattern_def lookahead_def line_terminator_def
      lower_chars_def upper_chars_def digit_chars_def symbol_chars_def)

text \<open>The two passwords of the documentation: the first is rejected, the second accepted.\<close>

lemma password_examples:
  "validate_password ''password''
     = [(''matches'', ''Password must contain uppercase, lowercase, number and special character'')]"
  "validate_password ''MyP@ssw0rd'' = []"
  by (simp_all add: validate_password_def password_pattern_def lookahead_def line_terminator_def
      lower_chars_def upper_chars_def digit_chars_def symbol_chars_def)

section \<open>The token claim\<close>

text \<open>
  \<open>validate\<close> copies \<open>sub\<close>, \<open>email\<close> and \<open>role\<close> of the payload and nothing else; what
  the other fields of the payload hold makes no difference.
\<close>

lemma validate_ignores_other_fields:
  "validate (payload\<lparr>iat := a, exp := b\<rparr>) = validate payload"
  by (simp add: validate_def)

end
